theory Spec2Isabelle
  imports Main
begin

section \<open>The date-input component of the ix component library\<close>

text \<open>
  This theory embeds \<^verbatim>\<open>packages/core/src/components/date-input/date-input.tsx\<close>:
  the class \<^verbatim>\<open>DateInput\<close>, its members, and the methods that parse the typed text,
  keep the validity flags, commit the form value and open or close the date picker's
  dropdown. Mutation of \<^verbatim>\<open>this\<close> is explicit state passing on a record. The
  continuation of an \<^verbatim>\<open>async\<close> method after its \<^verbatim>\<open>await\<close> is a microtask
  that the state carries in a queue until it is run.
\<close>

subsection \<open>JavaScript values\<close>

text \<open>
  A member of type \<^verbatim>\<open>string | undefined\<close> is a \<^typ>\<open>string option\<close>, with
  \<^term>\<open>None\<close> for \<^verbatim>\<open>undefined\<close>. Such a value is truthy when it is a
  non-empty string: \<^verbatim>\<open>!value\<close> is the negation of \<open>truthy\<close>.
\<close>

definition truthy :: "string option \<Rightarrow> bool" where
  "truthy v = (case v of None \<Rightarrow> False | Some x \<Rightarrow> x \<noteq> [])"

text \<open>\<^verbatim>\<open>x || undefined\<close> on a \<^verbatim>\<open>string | null\<close>: null and the empty string
  both become undefined.\<close>

definition or_undefined :: "string option \<Rightarrow> string option" where
  "or_undefined v = (if truthy v then v else None)"

text \<open>The member \<^verbatim>\<open>from?: string | null\<close> distinguishes null from undefined.\<close>

datatype from_value = From_null | From_undefined | From_string string

definition from_of :: "string option \<Rightarrow> from_value" where
  "from_of v = (case v of None \<Rightarrow> From_undefined | Some x \<Rightarrow> From_string x)"

subsection \<open>The parsing collaborator\<close>

text \<open>
  \<^verbatim>\<open>DateTime.fromFormat(text, format)\<close> belongs to the luxon library. It returns a
  \<^verbatim>\<open>DateTime\<close> that is either valid, with a timestamp in milliseconds, or invalid,
  with a reason. The component reads three things of it: \<^verbatim>\<open>isValid\<close>,
  \<^verbatim>\<open>invalidReason\<close> (null on a valid value) and, through \<^verbatim>\<open><\<close> and
  \<^verbatim>\<open>>\<close>, \<^verbatim>\<open>valueOf()\<close>, which is NaN on an invalid value. The parser itself
  is a parameter of every function that calls it.
\<close>

datatype DateTime = DateTime_valid int | DateTime_invalid string

type_synonym parser = "string \<Rightarrow> string \<Rightarrow> DateTime"

fun dt_isValid :: "DateTime \<Rightarrow> bool" where
  "dt_isValid (DateTime_valid ts) = True"
| "dt_isValid (DateTime_invalid reason) = False"

fun dt_invalidReason :: "DateTime \<Rightarrow> string option" where
  "dt_invalidReason (DateTime_valid ts) = None"
| "dt_invalidReason (DateTime_invalid reason) = Some reason"

text \<open>\<^verbatim>\<open>valueOf()\<close>: \<^term>\<open>None\<close> is NaN.\<close>

fun dt_valueOf :: "DateTime \<Rightarrow> int option" where
  "dt_valueOf (DateTime_valid ts) = Some ts"
| "dt_valueOf (DateTime_invalid reason) = None"

text \<open>\<^verbatim>\<open>a < b\<close> and \<^verbatim>\<open>a > b\<close> on numbers: false as soon as one side is NaN.\<close>

definition js_lt :: "int option \<Rightarrow> int option \<Rightarrow> bool" where
  "js_lt a b = (case a of None \<Rightarrow> False | Some x \<Rightarrow> (case b of None \<Rightarrow> False | Some y \<Rightarrow> x < y))"

definition js_gt :: "int option \<Rightarrow> int option \<Rightarrow> bool" where
  "js_gt a b = (case a of None \<Rightarrow> False | Some x \<Rightarrow> (case b of None \<Rightarrow> False | Some y \<Rightarrow> x > y))"

subsection \<open>A parser for the default pattern\<close>

text \<open>
  To run the model on the scenarios of the specification, \<open>fromFormat\<close> below is one
  parser: it reads the component's default pattern \<^verbatim>\<open>yyyy/LL/dd\<close> as luxon does (four
  digits, two digits, two digits, separated by slashes; a month outside 1..12 or a day
  that the month does not have is "unit out of range", any other text is "unparsable")
  and gives the timestamp of midnight UTC of that day. Under any other pattern it rejects
  every text, which is luxon's answer for the empty pattern, the only other one used
  below. The theorems about the component hold for every parser.
\<close>

definition is_digit :: "char \<Rightarrow> bool" where
  "is_digit c = (48 \<le> (of_char c :: nat) \<and> (of_char c :: nat) \<le> 57)"

definition digit_value :: "char \<Rightarrow> int" where
  "digit_value c = int (of_char c) - 48"

fun digits_value :: "string \<Rightarrow> int" where
  "digits_value cs = foldl (\<lambda>acc c. 10 * acc + digit_value c) 0 cs"

definition isLeapYear :: "int \<Rightarrow> bool" where
  "isLeapYear y = (y mod 4 = 0 \<and> (y mod 100 \<noteq> 0 \<or> y mod 400 = 0))"

definition daysInMonth :: "int \<Rightarrow> int \<Rightarrow> int" where
  "daysInMonth y m =
     (if m = 2 then (if isLeapYear y then 29 else 28)
      else if m = 4 \<or> m = 6 \<or> m = 9 \<or> m = 11 then 30 else 31)"

text \<open>Days from 1970-01-01 to the given day of the proleptic Gregorian calendar.\<close>

definition days_from_civil :: "int \<Rightarrow> int \<Rightarrow> int \<Rightarrow> int" where
  "days_from_civil y m d =
     (let y' = (if m \<le> 2 then y - 1 else y);
          era = y' div 400;
          yoe = y' - era * 400;
          doy = (153 * (if m > 2 then m - 3 else m + 9) + 2) div 5 + d - 1;
          doe = yoe * 365 + yoe div 4 - yoe div 100 + doy
      in era * 146097 + doe - 719468)"

definition parse_yyyyLLdd :: "string \<Rightarrow> DateTime" where
  "parse_yyyyLLdd text =
     (if length text = 10 \<and> text ! 4 = CHR ''/'' \<and> text ! 7 = CHR ''/''
         \<and> list_all is_digit (take 4 text)
         \<and> list_all is_digit (take 2 (drop 5 text))
         \<and> list_all is_digit (drop 8 text)
      then
        (let y = digits_value (take 4 text);
             m = digits_value (take 2 (drop 5 text));
             d = digits_value (drop 8 text)
         in if 1 \<le> m \<and> m \<le> 12 \<and> 1 \<le> d \<and> d \<le> daysInMonth y m
            then DateTime_valid (days_from_civil y m d * 86400000)
            else DateTime_invalid ''unit out of range'')
      else DateTime_invalid ''unparsable'')"

definition fromFormat :: parser where
  "fromFormat text fmt =
     (if fmt = ''yyyy/LL/dd'' then parse_yyyyLLdd text else DateTime_invalid ''unparsable'')"

subsection \<open>The dropdown controller\<close>

text \<open>
  Modelled from the spec: \<^verbatim>\<open>dropdownController\<close> is imported from
  \<^verbatim>\<open>../dropdown/dropdown-controller\<close>, which is not among the sources. The
  specification describes it as a registry of overlay registrations keyed by identifier,
  each with a trigger and a visibility flag, where \<open>present\<close> marks the overlay visible
  and does nothing for an unknown identifier, \<open>dismiss\<close> marks it not visible, and
  \<open>dismissAll\<close> marks every registered overlay not visible. The registry is an
  association list in registration order; a lookup finds the first entry of a key, and
  \<open>present\<close> and \<open>dismiss\<close> act on that entry.
\<close>

record OverlayRegistration =
  trigger :: string
  visibility :: bool

type_synonym registry = "(string \<times> OverlayRegistration) list"

text \<open>Modelled from the spec: the controller's lookup of a registration by its identifier
  (the source calls \<^verbatim>\<open>dropdownController.getDropdownById(id)\<close>, whose code is missing);
  \<^term>\<open>None\<close> for an identifier that is not registered.\<close>

definition getDropdownById :: "string \<Rightarrow> registry \<Rightarrow> OverlayRegistration option" where
  "getDropdownById i reg = map_of reg i"

text \<open>Modelled from the spec: \<^verbatim>\<open>present\<close> of the missing controller, "marks the
  overlay visible; is a no-op if the identifier is unknown".\<close>

fun present :: "string \<Rightarrow> registry \<Rightarrow> registry" where
  "present i [] = []"
| "present i ((k, r) # reg) =
     (if k = i then (k, r\<lparr>visibility := True\<rparr>) # reg else (k, r) # present i reg)"

text \<open>Modelled from the spec: \<^verbatim>\<open>dismiss\<close> of the missing controller, "marks not
  visible".\<close>

fun dismiss :: "string \<Rightarrow> registry \<Rightarrow> registry" where
  "dismiss i [] = []"
| "dismiss i ((k, r) # reg) =
     (if k = i then (k, r\<lparr>visibility := False\<rparr>) # reg else (k, r) # dismiss i reg)"

text \<open>Modelled from the spec: \<^verbatim>\<open>dismissAll\<close> of the missing controller, "marks
  every registered overlay not visible".\<close>

definition dismissAll :: "registry \<Rightarrow> registry" where
  "dismissAll reg = map (\<lambda>(k, r). (k, r\<lparr>visibility := False\<rparr>)) reg"

text \<open>The identifiers of the overlays that are visible, and how many there are.\<close>

definition visible_ids :: "registry \<Rightarrow> string list" where
  "visible_ids reg = map fst (filter (\<lambda>(k, r). visibility r) reg)"


subsection \<open>The component's state\<close>

text \<open>The object that \<^verbatim>\<open>getValidityState\<close> resolves to.\<close>

record ValidityState =
  badInput :: bool
  customError :: bool
  patternMismatch :: bool
  rangeOverflow :: bool
  rangeUnderflow :: bool
  stepMismatch :: bool
  tooLong :: bool
  tooShort :: bool
  typeMismatch :: bool
  valid :: bool
  valueMissing :: bool

text \<open>The argument of \<^verbatim>\<open>hookValidationLifecycle\<close>.\<close>

record ValidationResults =
  vr_isInfo :: bool
  vr_isInvalid :: bool
  vr_isInvalidByRequired :: bool
  vr_isValid :: bool
  vr_isWarning :: bool

text \<open>
  What the component does to its surroundings: the events it emits with their payload,
  and the runs of the two dropdown continuations. The log keeps each of them together
  with the values that \<^verbatim>\<open>isInputInvalid\<close> and \<^verbatim>\<open>invalidReason\<close> have at that
  moment, which is what a listener that reads the component synchronously would see.
\<close>

datatype effect =
    ValueChange "string option"
  | ValidityStateChange bool "string option"
  | OpenDropdownRan
  | CloseDropdownRan

type_synonym log_entry = "effect \<times> bool \<times> string option"

text \<open>
  The continuations that wait in the microtask queue: the rest of \<^verbatim>\<open>openDropdown\<close>
  and of \<^verbatim>\<open>closeDropdown\<close> after \<^verbatim>\<open>await this.dropdownElementRef.waitForCurrent()\<close>,
  and the rest of \<^verbatim>\<open>onInputValidationChange\<close> after
  \<^verbatim>\<open>await this.getValidityState()\<close>, which holds the state object that the call
  made before the await.
\<close>

datatype task =
    Resume_openDropdown
  | Resume_closeDropdown
  | Resume_onInputValidationChange ValidityState

text \<open>
  The members of the class that the modelled methods read or write (\<open>value\<close>,
  \<open>show\<close> and \<open>from\<close> carry the suffix \<open>_f\<close>), followed by what the instance acts on:
  \<open>formValue\<close> is the value given to \<^verbatim>\<open>formInternals.setFormValue\<close> (\<^term>\<open>None\<close>
  for null), \<open>classList\<close> the class list of the host element, \<open>dropdownElementRef\<close>
  the ref of the rendered \<^verbatim>\<open>ix-dropdown\<close> (\<^term>\<open>None\<close> until the element exists,
  then its \<^verbatim>\<open>data-ix-dropdown\<close> attribute, itself null or a string), \<open>dropdowns\<close>
  the registry of the dropdown controller, \<open>emitted\<close> the log and \<open>microtasks\<close> the
  queue of continuations.
\<close>

record DateInput =
  value_f :: "string option"
  minDate :: string
  maxDate :: string
  format :: string
  required :: bool
  show_f :: bool
  from_f :: from_value
  isInputInvalid :: bool
  isInvalid :: bool
  isValid :: bool
  isInfo :: bool
  isWarning :: bool
  invalidReason :: "string option"
  touched :: bool
  formValue :: "string option"
  classList :: "string list"
  dropdownElementRef :: "string option option"
  dropdowns :: registry
  emitted :: "log_entry list"
  microtasks :: "task list"

text \<open>The members as the class initialises them, on a host without classes, before the
  dropdown is rendered and with nothing registered.\<close>

definition initial :: DateInput where
  "initial = \<lparr> value_f = Some [], minDate = [], maxDate = [], format = ''yyyy/LL/dd'',
     required = False, show_f = False, from_f = From_null, isInputInvalid = False,
     isInvalid = False, isValid = False, isInfo = False, isWarning = False,
     invalidReason = None, touched = False, formValue = None, classList = [],
     dropdownElementRef = None, dropdowns = [], emitted = [], microtasks = [] \<rparr>"

definition observe :: "effect \<Rightarrow> DateInput \<Rightarrow> DateInput" where
  "observe e s = s\<lparr>emitted := emitted s @ [(e, isInputInvalid s, invalidReason s)]\<rparr>"

definition enqueue :: "task \<Rightarrow> DateInput \<Rightarrow> DateInput" where
  "enqueue t s = s\<lparr>microtasks := microtasks s @ [t]\<rparr>"

text \<open>The log entries and the continuations that \<open>s'\<close> has beyond those of \<open>s\<close>.\<close>

definition emitted_since :: "DateInput \<Rightarrow> DateInput \<Rightarrow> log_entry list" where
  "emitted_since s s' = drop (length (emitted s)) (emitted s')"

definition enqueued_since :: "DateInput \<Rightarrow> DateInput \<Rightarrow> task list" where
  "enqueued_since s s' = drop (length (microtasks s)) (microtasks s')"

subsection \<open>Validity\<close>

definition getValidityState :: "DateInput \<Rightarrow> ValidityState" where
  "getValidityState s =
     \<lparr> badInput = False, customError = False, patternMismatch = isInputInvalid s,
       rangeOverflow = False, rangeUnderflow = False, stepMismatch = False,
       tooLong = False, tooShort = False, typeMismatch = False,
       valid = (\<not> isInputInvalid s),
       valueMissing = (required s \<and> \<not> truthy (value_f s)) \<rparr>"

text \<open>
  \<^verbatim>\<open>onInputValidationChange\<close> up to its await: \<^verbatim>\<open>getValidityState()\<close> is called
  at once, and the rest waits for the promise.
\<close>

definition onInputValidationChange :: "DateInput \<Rightarrow> DateInput" where
  "onInputValidationChange s = enqueue (Resume_onInputValidationChange (getValidityState s)) s"

text \<open>The rest: the event takes \<open>patternMismatch\<close> from the awaited state and reads
  \<^verbatim>\<open>this.invalidReason\<close> when it runs.\<close>

definition onInputValidationChange_resume :: "ValidityState \<Rightarrow> DateInput \<Rightarrow> DateInput" where
  "onInputValidationChange_resume st s =
     observe (ValidityStateChange (patternMismatch st) (invalidReason s)) s"

text \<open>
  An assignment to \<^verbatim>\<open>this.isInputInvalid\<close>. The member is a \<^verbatim>\<open>@State\<close> watched
  by \<^verbatim>\<open>@Watch('isInputInvalid')\<close>: the framework calls the watching method, after
  storing the value, when the value differs from the stored one, and not otherwise.
\<close>

definition set_isInputInvalid :: "bool \<Rightarrow> DateInput \<Rightarrow> DateInput" where
  "set_isInputInvalid b s =
     (if isInputInvalid s = b then s else onInputValidationChange (s\<lparr>isInputInvalid := b\<rparr>))"

definition checkClassList :: "DateInput \<Rightarrow> DateInput" where
  "checkClassList s = s\<lparr>isInvalid := (''ix-invalid'' \<in> set (classList s))\<rparr>"

definition hookValidationLifecycle :: "ValidationResults \<Rightarrow> DateInput \<Rightarrow> DateInput" where
  "hookValidationLifecycle r s =
     s\<lparr> isInvalid := (vr_isInvalid r \<or> vr_isInvalidByRequired r \<or> isInputInvalid s),
        isInfo := vr_isInfo r,
        isValid := vr_isValid r,
        isWarning := vr_isWarning r \<rparr>"

definition hasValidValue :: "DateInput \<Rightarrow> bool" where
  "hasValidValue s = truthy (value_f s)"

definition isTouched :: "DateInput \<Rightarrow> bool" where
  "isTouched s = touched s"

subsection \<open>The dropdown\<close>

text \<open>
  \<^verbatim>\<open>openDropdown\<close> and \<^verbatim>\<open>closeDropdown\<close> await the dropdown element first, so a
  call only queues the continuation. \<open>openDropdown_on\<close> and \<open>closeDropdown_on\<close> are
  what the continuation does to the controller's registry, given the element's
  \<^verbatim>\<open>data-ix-dropdown\<close> attribute.
\<close>

definition openDropdown :: "DateInput \<Rightarrow> DateInput" where
  "openDropdown s = enqueue Resume_openDropdown s"

definition closeDropdown :: "DateInput \<Rightarrow> DateInput" where
  "closeDropdown s = enqueue Resume_closeDropdown s"

definition openDropdown_on :: "string option \<Rightarrow> registry \<Rightarrow> registry" where
  "openDropdown_on ident reg =
     (let reg1 = dismissAll reg in
      case ident of
        None \<Rightarrow> reg1
      | Some i \<Rightarrow>
          if i = [] then reg1
          else (case getDropdownById i reg1 of
                  None \<Rightarrow> reg1
                | Some dropdown \<Rightarrow> present i reg1))"

definition closeDropdown_on :: "string option \<Rightarrow> registry \<Rightarrow> registry" where
  "closeDropdown_on ident reg =
     (case ident of
        None \<Rightarrow> reg
      | Some i \<Rightarrow>
          if i = [] then reg
          else (case getDropdownById i reg of
                  None \<Rightarrow> reg
                | Some dropdown \<Rightarrow> dismiss i reg))"

definition openDropdown_resume :: "string option \<Rightarrow> DateInput \<Rightarrow> DateInput" where
  "openDropdown_resume ident s =
     observe OpenDropdownRan (s\<lparr>dropdowns := openDropdown_on ident (dropdowns s)\<rparr>)"

definition closeDropdown_resume :: "string option \<Rightarrow> DateInput \<Rightarrow> DateInput" where
  "closeDropdown_resume ident s =
     observe CloseDropdownRan (s\<lparr>dropdowns := closeDropdown_on ident (dropdowns s)\<rparr>)"

subsection \<open>Input\<close>

text \<open>
  \<^verbatim>\<open>updateFormInternalValue(value)\<close> where \<^verbatim>\<open>this.value\<close> already is
  \<^verbatim>\<open>value\<close>: its last line stores the same value, which calls no watcher.
\<close>

definition setFormValue :: "string option \<Rightarrow> DateInput \<Rightarrow> DateInput" where
  "setFormValue v s = s\<lparr>formValue := v\<rparr>"

definition updateFormInternalValue_same :: "string option \<Rightarrow> DateInput \<Rightarrow> DateInput" where
  "updateFormInternalValue_same v s =
     (if truthy v then setFormValue v s else setFormValue None s)\<lparr>value_f := v\<rparr>"

text \<open>
  \<^verbatim>\<open>onInput(value)\<close> from its second line on, where \<^verbatim>\<open>this.value\<close> already is
  \<^verbatim>\<open>value\<close>.
\<close>

definition onInput_body :: "parser \<Rightarrow> string option \<Rightarrow> DateInput \<Rightarrow> DateInput" where
  "onInput_body P v s =
     (case v of
        None \<Rightarrow> observe (ValueChange v) s
      | Some text \<Rightarrow>
          if text = [] then observe (ValueChange v) s
          else if format s = [] then s
          else
            (let date = P text (format s);
                 minD = P (minDate s) (format s);
                 maxD = P (maxDate s) (format s);
                 s1 = set_isInputInvalid
                        (\<not> dt_isValid date
                         \<or> js_lt (dt_valueOf date) (dt_valueOf minD)
                         \<or> js_gt (dt_valueOf date) (dt_valueOf maxD)) s;
                 s2 = (if isInputInvalid s1
                       then s1\<lparr>invalidReason := or_undefined (dt_invalidReason date),
                               from_f := From_undefined\<rparr>
                       else closeDropdown (updateFormInternalValue_same v s1))
             in observe (ValueChange v) s2))"

definition watchValue :: "DateInput \<Rightarrow> DateInput" where
  "watchValue s = s\<lparr>from_f := from_of (value_f s)\<rparr>"

text \<open>\<^verbatim>\<open>watchValuePropHandler(newValue)\<close> calls \<^verbatim>\<open>onInput(newValue)\<close> while
  \<^verbatim>\<open>this.value\<close> already is the new value.\<close>

definition watchValuePropHandler :: "parser \<Rightarrow> string option \<Rightarrow> DateInput \<Rightarrow> DateInput" where
  "watchValuePropHandler P newValue s = onInput_body P newValue s"

text \<open>
  An assignment to \<^verbatim>\<open>this.value\<close>. The member is a mutable \<^verbatim>\<open>@Prop\<close> with two
  \<^verbatim>\<open>@Watch('value')\<close> methods, called in the order of their declaration when the
  value differs from the stored one.
\<close>

definition set_value :: "parser \<Rightarrow> string option \<Rightarrow> DateInput \<Rightarrow> DateInput" where
  "set_value P v s =
     (if value_f s = v then s
      else watchValue (watchValuePropHandler P v (s\<lparr>value_f := v\<rparr>)))"

definition updateFormInternalValue :: "parser \<Rightarrow> string option \<Rightarrow> DateInput \<Rightarrow> DateInput" where
  "updateFormInternalValue P v s =
     set_value P v (if truthy v then setFormValue v s else setFormValue None s)"

definition onInput :: "parser \<Rightarrow> string option \<Rightarrow> DateInput \<Rightarrow> DateInput" where
  "onInput P v s = onInput_body P v (set_value P v s)"

definition componentWillLoad :: "parser \<Rightarrow> DateInput \<Rightarrow> DateInput" where
  "componentWillLoad P s =
     (let s1 = onInput P (value_f s) s;
          s2 = (if isInputInvalid s1 then s1\<lparr>from_f := From_null\<rparr> else watchValue s1);
          s3 = checkClassList s2
      in updateFormInternalValue P (value_f s3) s3)"

subsection \<open>Running the microtasks\<close>

text \<open>
  A dropdown continuation runs once the ref has an element; until then it stays in the
  queue. \<open>flush\<close> runs the queue once, in the order of queueing. The runtime may
  run a validity continuation before a dropdown continuation that was queued earlier;
  the properties below read the validity events and the last dropdown continuation,
  which that order does not change.
\<close>

fun run_task :: "task \<Rightarrow> DateInput \<Rightarrow> DateInput" where
  "run_task Resume_openDropdown s =
     (case dropdownElementRef s of
        None \<Rightarrow> enqueue Resume_openDropdown s
      | Some ident \<Rightarrow> openDropdown_resume ident s)"
| "run_task Resume_closeDropdown s =
     (case dropdownElementRef s of
        None \<Rightarrow> enqueue Resume_closeDropdown s
      | Some ident \<Rightarrow> closeDropdown_resume ident s)"
| "run_task (Resume_onInputValidationChange st) s = onInputValidationChange_resume st s"

definition flush :: "DateInput \<Rightarrow> DateInput" where
  "flush s = foldl (\<lambda>a t. run_task t a) (s\<lparr>microtasks := []\<rparr>) (microtasks s)"

subsection \<open>Vocabulary of the specification\<close>

text \<open>
  A timestamp lies within the bounds when it is not before the parsed minimum and not
  after the parsed maximum; a bound that does not parse under the pattern restricts
  nothing ("If not set there will be no restriction").
\<close>

definition within_bounds :: "parser \<Rightarrow> string \<Rightarrow> string \<Rightarrow> string \<Rightarrow> int \<Rightarrow> bool" where
  "within_bounds P fmt lo hi ts =
     ((case P lo fmt of DateTime_valid l \<Rightarrow> l \<le> ts | DateTime_invalid r \<Rightarrow> True)
      \<and> (case P hi fmt of DateTime_valid h \<Rightarrow> ts \<le> h | DateTime_invalid r \<Rightarrow> True))"

text \<open>A text is rejected when it is unparsable under the pattern or its date lies outside
  the bounds.\<close>

definition rejected :: "parser \<Rightarrow> string \<Rightarrow> string \<Rightarrow> string \<Rightarrow> string \<Rightarrow> bool" where
  "rejected P fmt lo hi text =
     (case P text fmt of
        DateTime_invalid r \<Rightarrow> True
      | DateTime_valid ts \<Rightarrow> \<not> within_bounds P fmt lo hi ts)"

text \<open>The overlay registered under an identifier is open.\<close>

definition overlay_open :: "string \<Rightarrow> registry \<Rightarrow> bool" where
  "overlay_open i reg = (case getDropdownById i reg of None \<Rightarrow> False | Some d \<Rightarrow> visibility d)"

text \<open>An example state: the component after its dropdown has been rendered with the
  identifier \<open>dropdown-1\<close>, registered and opened.\<close>

definition mounted :: DateInput where
  "mounted = initial\<lparr>dropdownElementRef := Some (Some ''dropdown-1''),
     dropdowns := [(''dropdown-1'', \<lparr>trigger = ''input'', visibility = True\<rparr>)]\<rparr>"




text \<open>The attribute of a dropdown element names no registered overlay: it is missing,
  empty, or not a key of the registry.\<close>

definition unknown_identifier :: "string option \<Rightarrow> registry \<Rightarrow> bool" where
  "unknown_identifier ident reg =
     (case ident of None \<Rightarrow> True | Some i \<Rightarrow> i = [] \<or> getDropdownById i reg = None)"

text \<open>An example state: a component whose dropdown element carries an identifier that
  was never registered, while the overlay \<open>dropdown-1\<close> of another trigger is open.\<close>

definition unregistered :: DateInput where
  "unregistered = mounted\<lparr>dropdownElementRef := Some (Some ''never-registered'')\<rparr>"

text \<open>The payloads of the validity-state-change events of a log, and the state objects
  of the validity continuations of a queue.\<close>

fun validity_events :: "log_entry list \<Rightarrow> (bool \<times> string option) list" where
  "validity_events [] = []"
| "validity_events ((ValidityStateChange pm r, snap) # es) = (pm, r) # validity_events es"
| "validity_events (e # es) = validity_events es"

fun validity_continuations :: "task list \<Rightarrow> ValidityState list" where
  "validity_continuations [] = []"
| "validity_continuations (Resume_onInputValidationChange st # ts) = st # validity_continuations ts"
| "validity_continuations (t # ts) = validity_continuations ts"

section \<open>Properties\<close>

subsection \<open>Auxiliary facts\<close>

lemma truthy_Some [simp]: "truthy (Some x) = (x \<noteq> [])"
  by (simp add: truthy_def)

lemma truthy_None [simp]: "truthy None = False"
  by (simp add: truthy_def)

text \<open>The three tests of \<^verbatim>\<open>onInput\<close> decide exactly rejection.\<close>

lemma verdict_rejected:
  "(\<not> dt_isValid (P t f)
     \<or> js_lt (dt_valueOf (P t f)) (dt_valueOf (P lo f))
     \<or> js_gt (dt_valueOf (P t f)) (dt_valueOf (P hi f))) = rejected P f lo hi t"
  by (cases "P t f"; cases "P lo f"; cases "P hi f")
     (auto simp: rejected_def within_bounds_def js_lt_def js_gt_def)

lemma isInputInvalid_set [simp]: "isInputInvalid (set_isInputInvalid b s) = b"
  by (simp add: set_isInputInvalid_def onInputValidationChange_def enqueue_def)

lemmas unfold_all = observe_def enqueue_def set_isInputInvalid_def onInputValidationChange_def
  closeDropdown_def updateFormInternalValue_same_def setFormValue_def watchValue_def
  watchValuePropHandler_def

lemma onInput_body_rejected:
  assumes "t \<noteq> []" "format s \<noteq> []" "rejected P (format s) (minDate s) (maxDate s) t"
  shows "onInput_body P (Some t) s =
           observe (ValueChange (Some t))
             ((set_isInputInvalid True s)
                \<lparr>invalidReason := or_undefined (dt_invalidReason (P t (format s))),
                 from_f := From_undefined\<rparr>)"
  unfolding onInput_body_def Let_def verdict_rejected using assms by simp

lemma onInput_body_accepted:
  assumes "t \<noteq> []" "format s \<noteq> []" "\<not> rejected P (format s) (minDate s) (maxDate s) t"
  shows "onInput_body P (Some t) s =
           observe (ValueChange (Some t))
             (closeDropdown (updateFormInternalValue_same (Some t) (set_isInputInvalid False s)))"
  unfolding onInput_body_def Let_def verdict_rejected using assms by simp

text \<open>Where the value member already holds the value, \<^verbatim>\<open>updateFormInternalValue\<close>
  calls no watcher.\<close>

lemma updateFormInternalValue_same:
  "value_f s = v \<Longrightarrow> updateFormInternalValue P v s = updateFormInternalValue_same v s"
  by (simp add: updateFormInternalValue_def updateFormInternalValue_same_def set_value_def
        setFormValue_def)

lemma set_value_cases:
  "set_value P v s = (if value_f s = v then s
     else watchValue (onInput_body P v (s\<lparr>value_f := v\<rparr>)))"
  by (simp add: set_value_def watchValuePropHandler_def)

lemma body_keeps [simp]:
  "format (onInput_body P v s) = format s"
  "minDate (onInput_body P v s) = minDate s"
  "maxDate (onInput_body P v s) = maxDate s"
  "required (onInput_body P v s) = required s"
  "value_f s = v \<Longrightarrow> value_f (onInput_body P v s) = v"
  "dropdownElementRef (onInput_body P v s) = dropdownElementRef s"
  "dropdowns (onInput_body P v s) = dropdowns s"
  "isInvalid (onInput_body P v s) = isInvalid s"
  by (auto simp: onInput_body_def unfold_all Let_def split: option.splits)

lemma set_value_keeps [simp]:
  "format (set_value P v s) = format s"
  "minDate (set_value P v s) = minDate s"
  "maxDate (set_value P v s) = maxDate s"
  "required (set_value P v s) = required s"
  "value_f (set_value P v s) = v"
  "dropdownElementRef (set_value P v s) = dropdownElementRef s"
  "dropdowns (set_value P v s) = dropdowns s"
  "isInvalid (set_value P v s) = isInvalid s"
  by (simp_all add: set_value_cases watchValue_def)

lemma onInput_rejected:
  assumes "t \<noteq> []" "format s \<noteq> []" "rejected P (format s) (minDate s) (maxDate s) t"
  shows "isInputInvalid (onInput P (Some t) s)"
    and "formValue (onInput P (Some t) s) = formValue s"
    and "value_f (onInput P (Some t) s) = Some t"
    and "invalidReason (onInput P (Some t) s) = or_undefined (dt_invalidReason (P t (format s)))"
  using assms
  by (simp_all add: onInput_def set_value_cases onInput_body_rejected unfold_all)

lemma onInput_accepted:
  assumes "t \<noteq> []" "format s \<noteq> []" "\<not> rejected P (format s) (minDate s) (maxDate s) t"
  shows "\<not> isInputInvalid (onInput P (Some t) s)"
    and "formValue (onInput P (Some t) s) = Some t"
    and "value_f (onInput P (Some t) s) = Some t"
    and "invalidReason (onInput P (Some t) s) = invalidReason s"
  using assms
  by (simp_all add: onInput_def set_value_cases onInput_body_accepted unfold_all)

lemma validity_continuations_append [simp]:
  "validity_continuations (xs @ ys) = validity_continuations xs @ validity_continuations ys"
  by (induction xs rule: validity_continuations.induct) simp_all

lemma validity_events_append [simp]:
  "validity_events (xs @ ys) = validity_events xs @ validity_events ys"
  by (induction xs rule: validity_events.induct) simp_all

lemma isInputInvalid_body:
  "isInputInvalid (onInput_body P v s) =
     (case v of
        None \<Rightarrow> isInputInvalid s
      | Some t \<Rightarrow> if t = [] \<or> format s = [] then isInputInvalid s
                  else rejected P (format s) (minDate s) (maxDate s) t)"
  unfolding onInput_body_def Let_def verdict_rejected
  by (simp add: unfold_all split: option.splits)

lemma microtasks_body:
  assumes "value_f s = v"
  shows "\<exists>ts. microtasks (onInput_body P v s) = microtasks s @ ts
           \<and> validity_continuations ts =
               (if isInputInvalid (onInput_body P v s) = isInputInvalid s then []
                else [getValidityState (onInput_body P v s)])"
  unfolding onInput_body_def Let_def verdict_rejected using assms
  by (auto simp add: unfold_all getValidityState_def split: option.splits)

lemma emitted_body:
  "emitted (onInput_body P v s) =
     emitted s @
       (case v of
          None \<Rightarrow> [(ValueChange v, isInputInvalid s, invalidReason s)]
        | Some t \<Rightarrow>
            if t = [] then [(ValueChange v, isInputInvalid s, invalidReason s)]
            else if format s = [] then []
            else [(ValueChange v, isInputInvalid (onInput_body P v s),
                   invalidReason (onInput_body P v s))])"
  unfolding onInput_body_def Let_def verdict_rejected
  by (simp add: unfold_all split: option.splits)

text \<open>Running continuations changes neither the validity members nor the value.\<close>

lemma run_task_keeps [simp]:
  "isInputInvalid (run_task t s) = isInputInvalid s"
  "invalidReason (run_task t s) = invalidReason s"
  "dropdownElementRef (run_task t s) = dropdownElementRef s"
  "value_f (run_task t s) = value_f s"
  "formValue (run_task t s) = formValue s"
  by (cases t; simp add: observe_def enqueue_def openDropdown_resume_def
        closeDropdown_resume_def onInputValidationChange_resume_def split: option.splits)+

lemma run_tasks_keeps [simp]:
  "isInputInvalid (foldl (\<lambda>a t. run_task t a) s ts) = isInputInvalid s"
  "invalidReason (foldl (\<lambda>a t. run_task t a) s ts) = invalidReason s"
  "dropdownElementRef (foldl (\<lambda>a t. run_task t a) s ts) = dropdownElementRef s"
  "value_f (foldl (\<lambda>a t. run_task t a) s ts) = value_f s"
  "formValue (foldl (\<lambda>a t. run_task t a) s ts) = formValue s"
  by (induction ts arbitrary: s) simp_all

text \<open>Each validity continuation of the queue emits one event when it runs, and the
  other continuations emit none.\<close>

lemma run_task_emitted:
  "\<exists>e1. emitted (run_task t s) = emitted s @ e1
     \<and> validity_events e1 =
         map (\<lambda>st. (patternMismatch st, invalidReason s)) (validity_continuations [t])"
  by (cases t; cases "dropdownElementRef s")
     (simp_all add: observe_def enqueue_def openDropdown_resume_def
        closeDropdown_resume_def onInputValidationChange_resume_def)

lemma run_tasks_emitted:
  "\<exists>es. emitted (foldl (\<lambda>a t. run_task t a) s ts) = emitted s @ es
     \<and> validity_events es =
         map (\<lambda>st. (patternMismatch st, invalidReason s)) (validity_continuations ts)"
proof (induction ts arbitrary: s)
  case Nil
  show ?case by simp
next
  case (Cons t ts)
  from run_task_emitted [of t s] obtain e1 where e1: "emitted (run_task t s) = emitted s @ e1"
    "validity_events e1 = map (\<lambda>st. (patternMismatch st, invalidReason s)) (validity_continuations [t])"
    by blast
  from Cons.IH [of "run_task t s"] obtain es where
    es: "emitted (foldl (\<lambda>a t. run_task t a) (run_task t s) ts) = emitted (run_task t s) @ es"
    "validity_events es =
       map (\<lambda>st. (patternMismatch st, invalidReason s)) (validity_continuations ts)"
    by auto
  have "validity_continuations (t # ts) = validity_continuations [t] @ validity_continuations ts"
    by (cases t) simp_all
  with e1 es show ?case
    by (intro exI [of _ "e1 @ es"]) simp
qed

text \<open>The flag after \<^verbatim>\<open>onInput\<close>: kept at both guards, the verdict past them.\<close>

lemma isInputInvalid_onInput:
  "isInputInvalid (onInput P v s) =
     (case v of
        None \<Rightarrow> isInputInvalid s
      | Some t \<Rightarrow> if t = [] \<or> format s = [] then isInputInvalid s
                  else rejected P (format s) (minDate s) (maxDate s) t)"
  by (simp add: onInput_def set_value_cases isInputInvalid_body watchValue_def
        split: option.splits)

lemma onInput_empty_emitted:
  "emitted_since s (onInput P (Some []) s) =
     (if value_f s = Some [] then [(ValueChange (Some []), isInputInvalid s, invalidReason s)]
      else [(ValueChange (Some []), isInputInvalid s, invalidReason s),
            (ValueChange (Some []), isInputInvalid s, invalidReason s)])"
  by (simp add: emitted_since_def onInput_def set_value_cases onInput_body_def unfold_all)

lemma onInput_empty_keeps:
  "value_f (onInput P (Some []) s) = Some []"
  "isInputInvalid (onInput P (Some []) s) = isInputInvalid s"
  "formValue (onInput P (Some []) s) = formValue s"
  by (simp_all add: onInput_def set_value_cases onInput_body_def unfold_all)

lemma map_of_dismiss_same:
  "map_of (dismiss i reg) i = map_option (\<lambda>r. r\<lparr>visibility := False\<rparr>) (map_of reg i)"
  by (induction i reg rule: dismiss.induct) auto

lemma closeDropdown_on_closes:
  "i \<noteq> [] \<Longrightarrow> \<not> overlay_open i (closeDropdown_on (Some i) reg)"
  by (cases "map_of reg i")
     (simp_all add: overlay_open_def closeDropdown_on_def getDropdownById_def map_of_dismiss_same)

lemma flush_snoc:
  "microtasks s = ts @ [t] \<Longrightarrow>
     flush s = run_task t (foldl (\<lambda>a t. run_task t a) (s\<lparr>microtasks := []\<rparr>) ts)"
  by (simp add: flush_def)

lemma onInput_accepted_queue:
  assumes "t \<noteq> []" "format s \<noteq> []" "\<not> rejected P (format s) (minDate s) (maxDate s) t"
  shows "\<exists>ts. microtasks (onInput P (Some t) s) = ts @ [Resume_closeDropdown]"
  using assms
  by (simp add: onInput_def onInput_body_accepted observe_def closeDropdown_def enqueue_def)

lemma onInput_emitted_truthy:
  assumes "t \<noteq> []" "format s \<noteq> []"
  shows "set (emitted_since s (onInput P (Some t) s)) =
           {(ValueChange (Some t), isInputInvalid (onInput P (Some t) s),
             invalidReason (onInput P (Some t) s))}"
proof (cases "rejected P (format s) (minDate s) (maxDate s) t")
  case True
  with assms show ?thesis
    by (simp add: emitted_since_def onInput_def set_value_cases onInput_body_rejected unfold_all)
next
  case False
  with assms show ?thesis
    by (simp add: emitted_since_def onInput_def set_value_cases onInput_body_accepted unfold_all)
qed

lemma onInput_keeps [simp]:
  "format (onInput P v s) = format s"
  "minDate (onInput P v s) = minDate s"
  "maxDate (onInput P v s) = maxDate s"
  "required (onInput P v s) = required s"
  "value_f (onInput P v s) = v"
  "dropdownElementRef (onInput P v s) = dropdownElementRef s"
  "dropdowns (onInput P v s) = dropdowns s"
  "isInvalid (onInput P v s) = isInvalid s"
  by (simp_all add: onInput_def)

text \<open>The validation hook lets the input's invalidity dominate what it is given.\<close>

lemma hookValidationLifecycle_dominates:
  "isInputInvalid s \<Longrightarrow> isInvalid (hookValidationLifecycle r s)"
  by (simp add: hookValidationLifecycle_def)

lemma onInput_accepted_flush:
  assumes "t \<noteq> []" "format s \<noteq> []" "\<not> rejected P (format s) (minDate s) (maxDate s) t"
    and "dropdownElementRef s = Some el"
  shows "last (emitted (flush (onInput P (Some t) s))) = (CloseDropdownRan, False, invalidReason s)"
    and "el = Some i \<Longrightarrow> i \<noteq> [] \<Longrightarrow> \<not> overlay_open i (dropdowns (flush (onInput P (Some t) s)))"
proof -
  from onInput_accepted_queue [OF assms(1-3)] obtain ts
    where ts: "microtasks (onInput P (Some t) s) = ts @ [Resume_closeDropdown]" by blast
  let ?x = "foldl (\<lambda>a t. run_task t a) ((onInput P (Some t) s)\<lparr>microtasks := []\<rparr>) ts"
  have fl: "flush (onInput P (Some t) s) = run_task Resume_closeDropdown ?x"
    using flush_snoc [OF ts] .
  have ref: "dropdownElementRef ?x = Some el"
    using assms(4) by simp
  have inv: "isInputInvalid ?x = False" "invalidReason ?x = invalidReason s"
    using onInput_accepted [OF assms(1-3)] by simp_all
  show "last (emitted (flush (onInput P (Some t) s))) = (CloseDropdownRan, False, invalidReason s)"
    using ref inv by (simp add: fl closeDropdown_resume_def observe_def)
  show "el = Some i \<Longrightarrow> i \<noteq> [] \<Longrightarrow> \<not> overlay_open i (dropdowns (flush (onInput P (Some t) s)))"
    using ref by (simp add: fl closeDropdown_resume_def observe_def closeDropdown_on_closes)
qed


lemma watchValue_keeps [simp]:
  "microtasks (watchValue s) = microtasks s"
  "emitted (watchValue s) = emitted s"
  "isInputInvalid (watchValue s) = isInputInvalid s"
  "invalidReason (watchValue s) = invalidReason s"
  "value_f (watchValue s) = value_f s"
  "format (watchValue s) = format s"
  "minDate (watchValue s) = minDate s"
  "maxDate (watchValue s) = maxDate s"
  "required (watchValue s) = required s"
  by (simp_all add: watchValue_def)

lemma getValidityState_cong:
  "isInputInvalid a = isInputInvalid b \<Longrightarrow> required a = required b \<Longrightarrow> value_f a = value_f b
     \<Longrightarrow> getValidityState a = getValidityState b"
  by (simp add: getValidityState_def)

lemma onInput_queue:
  "\<exists>ts. microtasks (onInput P v s) = microtasks s @ ts
     \<and> validity_continuations ts =
         (if isInputInvalid (onInput P v s) = isInputInvalid s then []
          else [getValidityState (onInput P v s)])"
proof (cases "value_f s = v")
  case True
  then have "onInput P v s = onInput_body P v s"
    by (simp add: onInput_def set_value_cases)
  then show ?thesis using microtasks_body [OF True, of P] by (simp only:)
next
  case False
  let ?a = "s\<lparr>value_f := v\<rparr>"
  let ?b = "onInput_body P v ?a"
  let ?c = "watchValue ?b"
  let ?d = "onInput_body P v ?c"
  have d: "onInput P v s = ?d"
    using False by (simp add: onInput_def set_value_cases)
  from microtasks_body [of ?a v P] obtain t1 where
    t1: "microtasks ?b = microtasks s @ t1"
      "validity_continuations t1 =
         (if isInputInvalid ?b = isInputInvalid s then [] else [getValidityState ?b])"
    by auto
  have vc: "value_f ?c = v" by simp
  from microtasks_body [OF vc, of P] obtain t2 where
    t2: "microtasks ?d = microtasks ?c @ t2"
      "validity_continuations t2 =
         (if isInputInvalid ?d = isInputInvalid ?c then [] else [getValidityState ?d])"
    by auto
  have same: "isInputInvalid ?d = isInputInvalid ?b"
    by (simp add: isInputInvalid_body split: option.splits)
  have "value_f ?d = value_f ?b" by simp
  with same have g: "getValidityState ?d = getValidityState ?b"
    by (intro getValidityState_cong) simp_all
  have "microtasks ?d = microtasks s @ (t1 @ t2)"
    using t1(1) t2(1) by simp
  moreover have "validity_continuations (t1 @ t2) =
      (if isInputInvalid ?d = isInputInvalid s then [] else [getValidityState ?d])"
    using t1(2) t2(2) same g by simp
  ultimately show ?thesis unfolding d by blast
qed

lemma onInput_emitted_subset:
  "set (emitted_since s (onInput P v s)) \<subseteq>
     {(ValueChange v, isInputInvalid (onInput P v s), invalidReason (onInput P v s))}"
proof (cases v)
  case None
  then show ?thesis
    by (simp add: emitted_since_def onInput_def set_value_cases onInput_body_def unfold_all)
next
  case (Some t)
  show ?thesis
  proof (cases "t = []")
    case True
    with Some show ?thesis
      by (simp add: onInput_empty_emitted onInput_empty_keeps)
         (simp add: onInput_def set_value_cases onInput_body_def unfold_all)
  next
    case False
    show ?thesis
    proof (cases "format s = []")
      case True
      with Some False show ?thesis
        by (simp add: emitted_since_def onInput_def set_value_cases onInput_body_def unfold_all)
    next
      case f: False
      with Some False onInput_emitted_truthy [of t s P] show ?thesis by simp
    qed
  qed
qed

lemma onInput_emits_no_validity_event:
  "validity_events (emitted_since s (onInput P v s)) = []"
proof -
  have "\<And>es. set es \<subseteq> {(ValueChange v, a, b)} \<Longrightarrow> validity_events es = []" for a b
  proof -
    fix es :: "log_entry list"
    show "set es \<subseteq> {(ValueChange v, a, b)} \<Longrightarrow> validity_events es = []"
      by (induction es) auto
  qed
  with onInput_emitted_subset [of s P v] show ?thesis by blast
qed

lemma flush_validity_events:
  "validity_events (emitted_since s (flush s)) =
     map (\<lambda>st. (patternMismatch st, invalidReason s)) (validity_continuations (microtasks s))"
proof -
  from run_tasks_emitted [of "s\<lparr>microtasks := []\<rparr>" "microtasks s"]
  obtain es where "emitted (flush s) = emitted s @ es"
    "validity_events es =
       map (\<lambda>st. (patternMismatch st, invalidReason s)) (validity_continuations (microtasks s))"
    by (auto simp: flush_def)
  then show ?thesis by (simp add: emitted_since_def)
qed

lemma onInput_emitted_extends:
  "emitted (onInput P v s) = emitted s @ emitted_since s (onInput P v s)"
  by (simp add: emitted_since_def onInput_def set_value_cases emitted_body)

lemma flush_emitted_extends:
  "emitted (flush s) = emitted s @ emitted_since s (flush s)"
  using run_tasks_emitted [of "s\<lparr>microtasks := []\<rparr>" "microtasks s"]
  by (auto simp: flush_def emitted_since_def)

lemma onInput_enqueued:
  "validity_continuations (enqueued_since s (onInput P v s)) =
     (if isInputInvalid (onInput P v s) = isInputInvalid s then []
      else [getValidityState (onInput P v s)])"
  using onInput_queue [of P v s] by (auto simp: enqueued_since_def)

lemma onInput_flush_validity_events:
  assumes "microtasks s = []"
  shows "validity_events (emitted_since s (flush (onInput P v s))) =
     (if isInputInvalid (onInput P v s) = isInputInvalid s then []
      else [(isInputInvalid (onInput P v s), invalidReason (onInput P v s))])"
proof -
  let ?s' = "onInput P v s"
  have "emitted (flush ?s') = emitted s @ (emitted_since s ?s' @ emitted_since ?s' (flush ?s'))"
    using onInput_emitted_extends [of P v s] flush_emitted_extends [of ?s'] by simp
  then have "emitted_since s (flush ?s') = emitted_since s ?s' @ emitted_since ?s' (flush ?s')"
    by (simp add: emitted_since_def [of s "flush ?s'"])
  moreover have "microtasks ?s' = enqueued_since s ?s'"
    using onInput_queue [of P v s] assms by (auto simp: enqueued_since_def)
  ultimately show ?thesis
    by (simp add: onInput_emits_no_validity_event flush_validity_events onInput_enqueued
          getValidityState_def)
qed

lemma hook_keeps:
  "microtasks (hookValidationLifecycle r s) = microtasks s"
  "emitted (hookValidationLifecycle r s) = emitted s"
  "microtasks (checkClassList s) = microtasks s"
  "emitted (checkClassList s) = emitted s"
  by (simp_all add: hookValidationLifecycle_def checkClassList_def)

text \<open>The registry under the calls of the components.\<close>

lemma visible_ids_dismissAll [simp]: "visible_ids (dismissAll reg) = []"
  by (induction reg) (auto simp: visible_ids_def dismissAll_def)

lemma keys_dismissAll [simp]: "map fst (dismissAll reg) = map fst reg"
  by (induction reg) (auto simp: dismissAll_def)

lemma keys_present [simp]: "map fst (present i reg) = map fst reg"
  by (induction i reg rule: present.induct) auto

lemma map_of_dismissAll:
  "map_of (dismissAll reg) i = map_option (\<lambda>r. r\<lparr>visibility := False\<rparr>) (map_of reg i)"
  by (induction reg) (auto simp: dismissAll_def)


lemma openDropdown_on_unknown:
  "unknown_identifier ident reg \<Longrightarrow> openDropdown_on ident reg = dismissAll reg"
  by (auto simp: unknown_identifier_def openDropdown_on_def getDropdownById_def Let_def
        map_of_dismissAll split: option.splits)


lemma keys_openDropdown_on [simp]: "map fst (openDropdown_on ident reg) = map fst reg"
  by (auto simp: openDropdown_on_def Let_def split: option.splits)



text \<open>The parser of the default pattern on the texts of the scenarios.\<close>

lemma fromFormat_2024_02_30:
  "fromFormat ''2024/02/30'' ''yyyy/LL/dd'' = DateTime_invalid ''unit out of range''"
  by code_simp

lemma fromFormat_2024_01_15:
  "fromFormat ''2024/01/15'' ''yyyy/LL/dd'' = DateTime_valid 1705276800000"
  by code_simp

lemma fromFormat_2023_12_31:
  "fromFormat ''2023/12/31'' ''yyyy/LL/dd'' = DateTime_valid 1703980800000"
  by code_simp

lemma fromFormat_2024_01_01:
  "fromFormat ''2024/01/01'' ''yyyy/LL/dd'' = DateTime_valid 1704067200000"
  by code_simp

lemma fromFormat_2024_12_31:
  "fromFormat ''2024/12/31'' ''yyyy/LL/dd'' = DateTime_valid 1735603200000"
  by code_simp

lemma fromFormat_empty_text:
  "fromFormat [] ''yyyy/LL/dd'' = DateTime_invalid ''unparsable''"
  by code_simp

lemma fromFormat_empty_pattern:
  "fromFormat text [] = DateTime_invalid ''unparsable''"
  by (simp add: fromFormat_def)

lemmas scenario_dates = fromFormat_2024_02_30 fromFormat_2024_01_15 fromFormat_2023_12_31
  fromFormat_2024_01_01 fromFormat_2024_12_31 fromFormat_empty_text fromFormat_empty_pattern

lemma rejected_2024_02_30 [simp]: "rejected fromFormat ''yyyy/LL/dd'' [] [] ''2024/02/30''"
  by (simp add: rejected_def scenario_dates)

lemma accepted_2024_01_15 [simp]: "\<not> rejected fromFormat ''yyyy/LL/dd'' [] [] ''2024/01/15''"
  by (simp add: rejected_def within_bounds_def scenario_dates)

lemma rejected_2023_12_31 [simp]:
  "rejected fromFormat ''yyyy/LL/dd'' ''2024/01/01'' ''2024/12/31'' ''2023/12/31''"
  by (simp add: rejected_def within_bounds_def scenario_dates)

subsection \<open>The claims\<close>

text \<open>
  C10. \<^verbatim>\<open>hasValidValue()\<close> resolves to true exactly when the raw value is a non-empty
  string. It therefore resolves to true while the input is invalid: after
  \<^verbatim>\<open>onInput\<close> has rejected a non-empty text, the value still holds that text, so
  \<open>isInputInvalid\<close> and \<open>hasValidValue\<close> are both true.
\<close>

theorem hasValidValue_iff_nonempty:
  "(hasValidValue s = (value_f s \<noteq> None \<and> value_f s \<noteq> Some []))
   \<and> (t \<noteq> [] \<and> format s \<noteq> [] \<and> rejected P (format s) (minDate s) (maxDate s) t
        \<longrightarrow> isInputInvalid (onInput P (Some t) s) \<and> hasValidValue (onInput P (Some t) s))"
proof (intro conjI impI)
  show "hasValidValue s = (value_f s \<noteq> None \<and> value_f s \<noteq> Some [])"
    by (cases "value_f s") (simp_all add: hasValidValue_def)
next
  assume h: "t \<noteq> [] \<and> format s \<noteq> [] \<and> rejected P (format s) (minDate s) (maxDate s) t"
  then show "isInputInvalid (onInput P (Some t) s)"
    by (simp add: onInput_rejected(1))
  from h show "hasValidValue (onInput P (Some t) s)"
    by (simp add: hasValidValue_def onInput_rejected(3))
qed

theorem hasValidValue_iff_nonempty_witness:
  "''2024/02/30'' \<noteq> [] \<and> format initial \<noteq> []
   \<and> rejected fromFormat (format initial) (minDate initial) (maxDate initial) ''2024/02/30''
   \<and> isInputInvalid (onInput fromFormat (Some ''2024/02/30'') initial)
   \<and> hasValidValue (onInput fromFormat (Some ''2024/02/30'') initial)
   \<and> hasValidValue initial = False"
proof -
  have h: "''2024/02/30'' \<noteq> [] \<and> format initial \<noteq> []
      \<and> rejected fromFormat (format initial) (minDate initial) (maxDate initial) ''2024/02/30''"
    by (simp add: initial_def rejected_def scenario_dates)
  have v: "hasValidValue initial = False"
    using hasValidValue_iff_nonempty [of initial "''2024/02/30''" fromFormat]
    by (simp add: initial_def)
  from h v hasValidValue_iff_nonempty [of initial "''2024/02/30''" fromFormat]
  show ?thesis by blast
qed

text \<open>
  C1, as amended. For every non-empty input text, with a non-empty pattern configured:
  if the text is unparsable under the pattern or its date lies outside the bounds, then
  \<^verbatim>\<open>onInput\<close> sets \<open>isInputInvalid\<close>, leaves the committed form value (the
  value last given to \<^verbatim>\<open>setFormValue\<close>) as it was, and the value member holds the
  rejected text. For the empty or undefined input, and for any input while the pattern
  is empty, \<^verbatim>\<open>onInput\<close> returns before it validates and \<open>isInputInvalid\<close>
  keeps the value it had.
\<close>

theorem onInput_rejected_keeps_committed:
  "(t \<noteq> [] \<and> format s \<noteq> [] \<and> rejected P (format s) (minDate s) (maxDate s) t
      \<longrightarrow> isInputInvalid (onInput P (Some t) s)
        \<and> formValue (onInput P (Some t) s) = formValue s
        \<and> value_f (onInput P (Some t) s) = Some t)
   \<and> isInputInvalid (onInput P (Some []) s) = isInputInvalid s
   \<and> isInputInvalid (onInput P None s) = isInputInvalid s
   \<and> (format s = [] \<longrightarrow> isInputInvalid (onInput P v s) = isInputInvalid s)"
proof (intro conjI impI)
  assume h: "t \<noteq> [] \<and> format s \<noteq> [] \<and> rejected P (format s) (minDate s) (maxDate s) t"
  then have 1: "t \<noteq> []" and 2: "format s \<noteq> []"
    and 3: "rejected P (format s) (minDate s) (maxDate s) t" by simp_all
  show "isInputInvalid (onInput P (Some t) s)" by (rule onInput_rejected(1) [OF 1 2 3])
  show "formValue (onInput P (Some t) s) = formValue s" by (rule onInput_rejected(2) [OF 1 2 3])
  show "value_f (onInput P (Some t) s) = Some t" by (rule onInput_rejected(3) [OF 1 2 3])
next
  show "isInputInvalid (onInput P (Some []) s) = isInputInvalid s"
    by (simp add: isInputInvalid_onInput)
next
  show "isInputInvalid (onInput P None s) = isInputInvalid s"
    by (simp add: isInputInvalid_onInput)
next
  assume "format s = []"
  then show "isInputInvalid (onInput P v s) = isInputInvalid s"
    by (simp add: isInputInvalid_onInput split: option.splits)
qed

text \<open>The rejection of \<open>2024/02/30\<close> in the initial state; then, with the flag set,
  the empty input, and an otherwise acceptable text under the empty pattern, both of
  which leave the flag set.\<close>

theorem onInput_rejected_keeps_committed_witness:
  "''2024/02/30'' \<noteq> [] \<and> format initial \<noteq> []
   \<and> rejected fromFormat (format initial) (minDate initial) (maxDate initial) ''2024/02/30''
   \<and> isInputInvalid (onInput fromFormat (Some ''2024/02/30'') initial)
   \<and> formValue (onInput fromFormat (Some ''2024/02/30'') initial) = None
   \<and> value_f (onInput fromFormat (Some ''2024/02/30'') initial) = Some ''2024/02/30''
   \<and> isInputInvalid (onInput fromFormat (Some [])
         (onInput fromFormat (Some ''2024/02/30'') initial))
   \<and> format ((onInput fromFormat (Some ''2024/02/30'') initial)\<lparr>format := []\<rparr>) = []
   \<and> isInputInvalid (onInput fromFormat (Some ''2024/01/15'')
         ((onInput fromFormat (Some ''2024/02/30'') initial)\<lparr>format := []\<rparr>))"
proof -
  let ?s1 = "onInput fromFormat (Some ''2024/02/30'') initial"
  have h: "''2024/02/30'' \<noteq> [] \<and> format initial \<noteq> []
      \<and> rejected fromFormat (format initial) (minDate initial) (maxDate initial) ''2024/02/30''"
    by (simp add: initial_def)
  have a: "isInputInvalid ?s1 \<and> formValue ?s1 = formValue initial
      \<and> value_f ?s1 = Some ''2024/02/30''"
    using onInput_rejected_keeps_committed [of "''2024/02/30''" initial fromFormat] h by blast
  have f: "formValue initial = None" by (simp add: initial_def)
  have b: "isInputInvalid (onInput fromFormat (Some []) ?s1) = isInputInvalid ?s1"
    using onInput_rejected_keeps_committed [of "''2024/02/30''" ?s1 fromFormat] by blast
  have g: "format (?s1\<lparr>format := []\<rparr>) = []" by simp
  have c: "isInputInvalid (onInput fromFormat (Some ''2024/01/15'') (?s1\<lparr>format := []\<rparr>))
      = isInputInvalid (?s1\<lparr>format := []\<rparr>)"
    using onInput_rejected_keeps_committed
      [of "''2024/02/30''" "?s1\<lparr>format := []\<rparr>" fromFormat "Some ''2024/01/15''"] g
    by blast
  have d: "isInputInvalid (?s1\<lparr>format := []\<rparr>) = isInputInvalid ?s1" by simp
  from h a f b g c d show ?thesis by simp
qed

text \<open>
  The claim as stated fails at the two guards of \<^verbatim>\<open>onInput\<close>. With the empty
  pattern the text \<open>abc\<close> is unparsable, and \<^verbatim>\<open>onInput\<close> returns at
  \<^verbatim>\<open>if (!this.format)\<close> before it validates; the empty text is unparsable under
  the default pattern, and \<^verbatim>\<open>onInput\<close> returns at \<^verbatim>\<open>if (!value)\<close>. In both
  cases \<open>isInputInvalid\<close> stays false.
\<close>

theorem onInput_rejected_counterexample:
  "rejected fromFormat [] [] [] ''abc''
   \<and> \<not> isInputInvalid (onInput fromFormat (Some ''abc'') (initial\<lparr>format := []\<rparr>))
   \<and> rejected fromFormat ''yyyy/LL/dd'' [] [] []
   \<and> \<not> isInputInvalid (onInput fromFormat (Some []) initial)"
  by (simp add: rejected_def scenario_dates initial_def onInput_def set_value_cases
        onInput_body_def unfold_all)

text \<open>
  C5, as amended. In every state (so also after a valid value has been committed), an
  input of the empty string leaves the value member empty and emits value-change events
  that carry the input itself, the empty string, and no other event; the payload is
  \<^verbatim>\<open>undefined\<close> only when the input is \<^verbatim>\<open>undefined\<close>.
\<close>

theorem onInput_empty_emits_input:
  "value_f (onInput P (Some []) s) = Some []
   \<and> set (emitted_since s (onInput P (Some []) s)) =
         {(ValueChange (Some []), isInputInvalid s, invalidReason s)}
   \<and> value_f (onInput P None s) = None
   \<and> set (emitted_since s (onInput P None s)) =
         {(ValueChange None, isInputInvalid s, invalidReason s)}"
  by (simp add: onInput_empty_emitted onInput_empty_keeps)
     (simp add: emitted_since_def onInput_def set_value_cases onInput_body_def unfold_all)

theorem onInput_empty_emits_input_witness:
  "value_f (onInput fromFormat (Some []) (onInput fromFormat (Some ''2024/01/15'') initial)) = Some []
   \<and> set (emitted_since (onInput fromFormat (Some ''2024/01/15'') initial)
         (onInput fromFormat (Some []) (onInput fromFormat (Some ''2024/01/15'') initial))) =
         {(ValueChange (Some []), False, None)}"
proof -
  have a: "\<not> isInputInvalid (onInput fromFormat (Some ''2024/01/15'') initial)"
    and b: "invalidReason (onInput fromFormat (Some ''2024/01/15'') initial) = None"
    by (simp_all add: onInput_accepted initial_def)
  from a b
    onInput_empty_emits_input [of fromFormat "onInput fromFormat (Some ''2024/01/15'') initial"]
  show ?thesis by simp
qed

text \<open>
  The claim as stated fails after a valid value has been committed: the input
  \<open>2024/01/15\<close> is committed, then the input is cleared, and the two value-change
  events of that call (one from the watcher of the value, one from the call itself)
  carry the empty string, not \<^verbatim>\<open>undefined\<close>.
\<close>

theorem onInput_empty_counterexample:
  "formValue (onInput fromFormat (Some ''2024/01/15'') initial) = Some ''2024/01/15''
   \<and> \<not> isInputInvalid (onInput fromFormat (Some ''2024/01/15'') initial)
   \<and> map fst (emitted_since (onInput fromFormat (Some ''2024/01/15'') initial)
         (onInput fromFormat (Some []) (onInput fromFormat (Some ''2024/01/15'') initial))) =
       [ValueChange (Some []), ValueChange (Some [])]"
  by (simp add: onInput_accepted onInput_empty_emitted initial_def)

text \<open>
  C6, as amended. Whenever \<^verbatim>\<open>onInput\<close> rejects a non-empty text (with a non-empty
  pattern), the reason it records is the parser's reason when the text is unparsable,
  and \<^verbatim>\<open>undefined\<close> when the text parses and its date lies outside the bounds; both
  cases go through the same branch, and the empty string is never recorded.
\<close>

theorem onInput_rejected_reason:
  assumes "t \<noteq> []" and "format s \<noteq> []"
    and "rejected P (format s) (minDate s) (maxDate s) t"
  shows "isInputInvalid (onInput P (Some t) s)
     \<and> invalidReason (onInput P (Some t) s) =
         (case P t (format s) of
            DateTime_invalid r \<Rightarrow> if r = [] then None else Some r
          | DateTime_valid ts \<Rightarrow> None)
     \<and> invalidReason (onInput P (Some t) s) \<noteq> Some []"
  using assms
  by (cases "P t (format s)") (simp_all add: onInput_rejected or_undefined_def)

theorem onInput_rejected_reason_witness:
  "''2024/02/30'' \<noteq> [] \<and> format initial \<noteq> []
   \<and> rejected fromFormat (format initial) (minDate initial) (maxDate initial) ''2024/02/30''
   \<and> isInputInvalid (onInput fromFormat (Some ''2024/02/30'') initial)
   \<and> invalidReason (onInput fromFormat (Some ''2024/02/30'') initial) = Some ''unit out of range''"
  using onInput_rejected_reason [of "''2024/02/30''" initial fromFormat]
  by (simp add: initial_def scenario_dates)

text \<open>
  The claim as stated fails on the second scenario of the specification: with the bounds
  \<open>2024/01/01\<close> and \<open>2024/12/31\<close> the input \<open>2023/12/31\<close> parses and is out of
  range, the input is marked invalid, and the reason recorded is \<^verbatim>\<open>undefined\<close>.
\<close>

theorem onInput_range_reason_counterexample:
  "isInputInvalid (onInput fromFormat (Some ''2023/12/31'')
       (initial\<lparr>minDate := ''2024/01/01'', maxDate := ''2024/12/31''\<rparr>))
   \<and> invalidReason (onInput fromFormat (Some ''2023/12/31'')
       (initial\<lparr>minDate := ''2024/01/01'', maxDate := ''2024/12/31''\<rparr>)) = None"
  by (simp add: onInput_rejected initial_def or_undefined_def scenario_dates)

text \<open>
  C2. For every non-empty input text that parses under the configured (non-empty) pattern
  and whose date lies within the bounds, \<^verbatim>\<open>onInput\<close> clears \<open>isInputInvalid\<close>,
  commits the text as the form value through \<^verbatim>\<open>updateFormInternalValue\<close>, emits
  value-change events that carry the text, and calls \<^verbatim>\<open>closeDropdown\<close>, whose
  continuation is the last in the queue; once the queue has run, the overlay registered
  under the identifier of this field's dropdown element is not open.
\<close>

theorem onInput_accepted_commits:
  assumes "t \<noteq> []" and "format s \<noteq> []"
    and "P t (format s) = DateTime_valid ts"
    and "within_bounds P (format s) (minDate s) (maxDate s) ts"
  shows "\<not> isInputInvalid (onInput P (Some t) s)
     \<and> formValue (onInput P (Some t) s) = Some t
     \<and> value_f (onInput P (Some t) s) = Some t
     \<and> set (emitted_since s (onInput P (Some t) s)) = {(ValueChange (Some t), False, invalidReason s)}
     \<and> last (microtasks (onInput P (Some t) s)) = Resume_closeDropdown
     \<and> (dropdownElementRef s = Some (Some i) \<and> i \<noteq> []
          \<longrightarrow> \<not> overlay_open i (dropdowns (flush (onInput P (Some t) s))))"
proof -
  from assms(3,4) have acc: "\<not> rejected P (format s) (minDate s) (maxDate s) t"
    by (simp add: rejected_def)
  note a = onInput_accepted [OF assms(1,2) acc]
  from onInput_accepted_queue [OF assms(1,2) acc]
  have q: "last (microtasks (onInput P (Some t) s)) = Resume_closeDropdown" by auto
  have e: "set (emitted_since s (onInput P (Some t) s)) = {(ValueChange (Some t), False, invalidReason s)}"
    using onInput_emitted_truthy [OF assms(1,2), of P] a by simp
  have o: "dropdownElementRef s = Some (Some i) \<and> i \<noteq> []
      \<longrightarrow> \<not> overlay_open i (dropdowns (flush (onInput P (Some t) s)))"
    using onInput_accepted_flush(2) [OF assms(1,2) acc] by blast
  from a q e o show ?thesis by simp
qed

theorem onInput_accepted_commits_witness:
  "''2024/01/15'' \<noteq> [] \<and> format mounted \<noteq> []
   \<and> fromFormat ''2024/01/15'' (format mounted) = DateTime_valid 1705276800000
   \<and> within_bounds fromFormat (format mounted) (minDate mounted) (maxDate mounted) 1705276800000
   \<and> dropdownElementRef mounted = Some (Some ''dropdown-1'')
   \<and> overlay_open ''dropdown-1'' (dropdowns mounted)
   \<and> \<not> isInputInvalid (onInput fromFormat (Some ''2024/01/15'') mounted)
   \<and> formValue (onInput fromFormat (Some ''2024/01/15'') mounted) = Some ''2024/01/15''
   \<and> set (emitted_since mounted (onInput fromFormat (Some ''2024/01/15'') mounted)) =
         {(ValueChange (Some ''2024/01/15''), False, None)}
   \<and> \<not> overlay_open ''dropdown-1''
         (dropdowns (flush (onInput fromFormat (Some ''2024/01/15'') mounted)))"
proof -
  have h: "''2024/01/15'' \<noteq> []" "format mounted \<noteq> []"
    "fromFormat ''2024/01/15'' (format mounted) = DateTime_valid 1705276800000"
    "within_bounds fromFormat (format mounted) (minDate mounted) (maxDate mounted) 1705276800000"
    by (simp_all add: mounted_def initial_def within_bounds_def scenario_dates)
  have m: "dropdownElementRef mounted = Some (Some ''dropdown-1'')"
    "overlay_open ''dropdown-1'' (dropdowns mounted)" "invalidReason mounted = None"
    by (simp_all add: mounted_def initial_def overlay_open_def getDropdownById_def)
  from onInput_accepted_commits [OF h, of "''dropdown-1''"] h m show ?thesis by simp
qed

text \<open>
  C9. Every value-change event that \<^verbatim>\<open>onInput\<close> emits is emitted by the call
  itself, not by a continuation, and at that moment \<open>isInputInvalid\<close> and
  \<open>invalidReason\<close> already have the values the call leaves them with; for a non-empty
  text under a non-empty pattern that value of \<open>isInputInvalid\<close> is the verdict on
  this text, and an event is emitted. The close of the dropdown that an accepted input
  triggers runs as a continuation after the call, so after the recomputation and after
  the events: it is the last entry of the log once the queue has run, and it sees the
  recomputed validity.
\<close>

theorem validity_recomputed_before_events:
  "set (emitted_since s (onInput P v s)) \<subseteq>
     {(ValueChange v, isInputInvalid (onInput P v s), invalidReason (onInput P v s))}
   \<and> (t \<noteq> [] \<and> format s \<noteq> []
        \<longrightarrow> isInputInvalid (onInput P (Some t) s) = rejected P (format s) (minDate s) (maxDate s) t
          \<and> emitted_since s (onInput P (Some t) s) \<noteq> [])
   \<and> (t \<noteq> [] \<and> format s \<noteq> [] \<and> \<not> rejected P (format s) (minDate s) (maxDate s) t
        \<and> dropdownElementRef s = Some el
        \<longrightarrow> last (emitted (flush (onInput P (Some t) s))) =
              (CloseDropdownRan, isInputInvalid (onInput P (Some t) s),
               invalidReason (onInput P (Some t) s)))"
proof (intro conjI impI)
  show "set (emitted_since s (onInput P v s)) \<subseteq>
     {(ValueChange v, isInputInvalid (onInput P v s), invalidReason (onInput P v s))}"
    by (rule onInput_emitted_subset)
next
  assume h: "t \<noteq> [] \<and> format s \<noteq> []"
  then have 1: "t \<noteq> []" and 2: "format s \<noteq> []" by simp_all
  show "isInputInvalid (onInput P (Some t) s) = rejected P (format s) (minDate s) (maxDate s) t"
  proof (cases "rejected P (format s) (minDate s) (maxDate s) t")
    case True
    with onInput_rejected(1) [OF 1 2 True] show ?thesis by simp
  next
    case False
    with onInput_accepted(1) [OF 1 2 False] show ?thesis by simp
  qed
  have "set (emitted_since s (onInput P (Some t) s)) \<noteq> {}"
    unfolding onInput_emitted_truthy [OF 1 2] by simp
  then show "emitted_since s (onInput P (Some t) s) \<noteq> []" by simp
next
  assume h: "t \<noteq> [] \<and> format s \<noteq> [] \<and> \<not> rejected P (format s) (minDate s) (maxDate s) t
        \<and> dropdownElementRef s = Some el"
  then have 1: "t \<noteq> []" and 2: "format s \<noteq> []"
    and 3: "\<not> rejected P (format s) (minDate s) (maxDate s) t"
    and 4: "dropdownElementRef s = Some el" by simp_all
  have "isInputInvalid (onInput P (Some t) s) = False"
    using onInput_accepted(1) [OF 1 2 3] by simp
  moreover note onInput_accepted(4) [OF 1 2 3] onInput_accepted_flush(1) [OF 1 2 3 4]
  ultimately show "last (emitted (flush (onInput P (Some t) s))) =
              (CloseDropdownRan, isInputInvalid (onInput P (Some t) s),
               invalidReason (onInput P (Some t) s))"
    by (simp only:)
qed

theorem validity_recomputed_before_events_witness:
  "''2024/01/15'' \<noteq> [] \<and> format mounted \<noteq> []
   \<and> \<not> rejected fromFormat (format mounted) (minDate mounted) (maxDate mounted) ''2024/01/15''
   \<and> dropdownElementRef mounted = Some (Some ''dropdown-1'')
   \<and> set (emitted_since mounted (onInput fromFormat (Some ''2024/01/15'') mounted)) \<subseteq>
       {(ValueChange (Some ''2024/01/15''), False, None)}
   \<and> emitted_since mounted (onInput fromFormat (Some ''2024/01/15'') mounted) \<noteq> []
   \<and> last (emitted (flush (onInput fromFormat (Some ''2024/01/15'') mounted))) =
       (CloseDropdownRan, False, None)"
proof -
  have h: "''2024/01/15'' \<noteq> [] \<and> format mounted \<noteq> []"
    "\<not> rejected fromFormat (format mounted) (minDate mounted) (maxDate mounted) ''2024/01/15''"
    "dropdownElementRef mounted = Some (Some ''dropdown-1'')"
    by (simp_all add: mounted_def initial_def)
  have a: "isInputInvalid (onInput fromFormat (Some ''2024/01/15'') mounted) = False"
    "invalidReason (onInput fromFormat (Some ''2024/01/15'') mounted) = None"
    using h onInput_accepted(1,4) [of "''2024/01/15''" mounted fromFormat]
    by (simp_all add: mounted_def initial_def)
  from validity_recomputed_before_events
    [of mounted fromFormat "Some ''2024/01/15''" "''2024/01/15''" "Some ''dropdown-1''"] h a
  show ?thesis by simp
qed

text \<open>
  C8. A call of \<^verbatim>\<open>onInput\<close> queues exactly one continuation of
  \<^verbatim>\<open>onInputValidationChange\<close> when it changes \<open>isInputInvalid\<close> and none when it
  leaves the flag as it was, whatever else the state holds, and emits no
  validity-state-change event itself. Running the queue emits exactly one such event for
  each queued continuation, with no comparison against an earlier state. The validation
  hook and the class-list check queue nothing and emit nothing. So, from an empty queue,
  one input followed by a run of the queue emits one validity-state-change event if the
  flag changed and none otherwise.
\<close>

theorem validity_event_once_per_flag_change:
  "validity_continuations (enqueued_since s (onInput P v s)) =
       (if isInputInvalid (onInput P v s) = isInputInvalid s then []
        else [getValidityState (onInput P v s)])
   \<and> validity_events (emitted_since s (onInput P v s)) = []
   \<and> validity_events (emitted_since s (flush s)) =
       map (\<lambda>st. (patternMismatch st, invalidReason s)) (validity_continuations (microtasks s))
   \<and> microtasks (hookValidationLifecycle r s) = microtasks s
   \<and> emitted (hookValidationLifecycle r s) = emitted s
   \<and> microtasks (checkClassList s) = microtasks s
   \<and> emitted (checkClassList s) = emitted s
   \<and> (microtasks s = [] \<longrightarrow>
        validity_events (emitted_since s (flush (onInput P v s))) =
          (if isInputInvalid (onInput P v s) = isInputInvalid s then []
           else [(isInputInvalid (onInput P v s), invalidReason (onInput P v s))]))"
proof -
  have "microtasks s = [] \<longrightarrow>
        validity_events (emitted_since s (flush (onInput P v s))) =
          (if isInputInvalid (onInput P v s) = isInputInvalid s then []
           else [(isInputInvalid (onInput P v s), invalidReason (onInput P v s))])"
    using onInput_flush_validity_events [of s P v] by blast
  with onInput_enqueued [of s P v] onInput_emits_no_validity_event [of s P v]
    flush_validity_events [of s]
  show ?thesis by (simp only: hook_keeps simp_thms)
qed

theorem validity_event_once_per_flag_change_witness:
  "microtasks initial = []
   \<and> validity_events (emitted_since initial (flush (onInput fromFormat (Some ''2024/02/30'') initial)))
       = [(True, Some ''unit out of range'')]
   \<and> validity_events (emitted_since initial (flush (onInput fromFormat (Some ''2024/01/15'') initial)))
       = []"
proof -
  have m: "microtasks initial = []" "isInputInvalid initial = False"
    by (simp_all add: initial_def)
  have r: "isInputInvalid (onInput fromFormat (Some ''2024/02/30'') initial) = True"
    "invalidReason (onInput fromFormat (Some ''2024/02/30'') initial) = Some ''unit out of range''"
    by (simp_all add: onInput_rejected initial_def or_undefined_def scenario_dates)
  have a: "isInputInvalid (onInput fromFormat (Some ''2024/01/15'') initial) = False"
    using onInput_accepted(1) [of "''2024/01/15''" initial fromFormat]
    by (simp add: initial_def)
  from validity_event_once_per_flag_change [of initial fromFormat "Some ''2024/02/30''"]
    validity_event_once_per_flag_change [of initial fromFormat "Some ''2024/01/15''"] m r a
  show ?thesis by simp
qed




text \<open>
  C7, as amended. When the dropdown element of a component carries no identifier, or one
  that was never registered, the continuation of \<^verbatim>\<open>openDropdown\<close> presents nothing
  and the registry keeps its registrations, but it is not a no-op: \<^verbatim>\<open>dismissAll\<close>
  has run before the identifier is looked at, so afterwards no overlay is visible.
\<close>

theorem openDropdown_unknown_dismisses_all:
  assumes "dropdownElementRef s = Some ident" and "unknown_identifier ident (dropdowns s)"
  shows "dropdowns (run_task Resume_openDropdown s) = dismissAll (dropdowns s)
     \<and> visible_ids (dropdowns (run_task Resume_openDropdown s)) = []
     \<and> map fst (dropdowns (run_task Resume_openDropdown s)) = map fst (dropdowns s)"
  using assms by (simp add: openDropdown_resume_def observe_def openDropdown_on_unknown)

theorem openDropdown_unknown_dismisses_all_witness:
  "dropdownElementRef unregistered = Some (Some ''never-registered'')
   \<and> unknown_identifier (Some ''never-registered'') (dropdowns unregistered)
   \<and> dropdowns (run_task Resume_openDropdown unregistered) =
       [(''dropdown-1'', \<lparr>trigger = ''input'', visibility = False\<rparr>)]
   \<and> visible_ids (dropdowns (run_task Resume_openDropdown unregistered)) = []"
proof -
  have h: "dropdownElementRef unregistered = Some (Some ''never-registered'')"
    "unknown_identifier (Some ''never-registered'') (dropdowns unregistered)"
    by (simp_all add: unregistered_def mounted_def initial_def unknown_identifier_def
          getDropdownById_def)
  have d: "dismissAll (dropdowns unregistered) =
      [(''dropdown-1'', \<lparr>trigger = ''input'', visibility = False\<rparr>)]"
    by (simp add: unregistered_def mounted_def initial_def dismissAll_def)
  from openDropdown_unknown_dismisses_all [OF h] h d show ?thesis
    by (simp add: visible_ids_def)
qed

text \<open>
  The claim as stated fails when another overlay is open: the component's dropdown
  element carries an identifier that was never registered, \<^verbatim>\<open>openDropdown\<close> is
  called and its continuation runs, and the open overlay \<open>dropdown-1\<close> has been
  dismissed, so the registry is not what it was.
\<close>

theorem openDropdown_unknown_counterexample:
  "unknown_identifier (Some ''never-registered'') (dropdowns unregistered)
   \<and> overlay_open ''dropdown-1'' (dropdowns unregistered)
   \<and> \<not> overlay_open ''dropdown-1'' (dropdowns (flush (openDropdown unregistered)))
   \<and> dropdowns (flush (openDropdown unregistered)) \<noteq> dropdowns unregistered"
  by (simp add: unregistered_def mounted_def initial_def unknown_identifier_def
        getDropdownById_def overlay_open_def flush_def openDropdown_def enqueue_def
        openDropdown_resume_def observe_def openDropdown_on_def dismissAll_def)

text \<open>
  C3. The claim is that \<open>isInvalid\<close> holds whenever \<open>isInputInvalid\<close> does, under
  every operation that recomputes \<open>isInvalid\<close>. \<^verbatim>\<open>hookValidationLifecycle\<close> does
  that (\<open>hookValidationLifecycle_dominates\<close>); \<^verbatim>\<open>checkClassList\<close> does not. A
  component created with the value \<open>2024/02/30\<close> on a host without the class
  \<open>ix-invalid\<close> has, after \<^verbatim>\<open>componentWillLoad\<close>, \<open>isInputInvalid\<close> true and
  \<open>isInvalid\<close> false.
\<close>

theorem checkClassList_forgets_input_invalidity:
  "isInputInvalid (componentWillLoad fromFormat (initial\<lparr>value_f := Some ''2024/02/30''\<rparr>))
   \<and> \<not> isInvalid (componentWillLoad fromFormat (initial\<lparr>value_f := Some ''2024/02/30''\<rparr>))"
  by (simp add: componentWillLoad_def Let_def onInput_def set_value_cases onInput_body_def
        updateFormInternalValue_def checkClassList_def unfold_all initial_def scenario_dates
        js_lt_def js_gt_def)

end
